theory Spec2Isabelle
  imports Main
begin

section \<open>Python values, exceptions and the builtins the module relies on\<close>

text \<open>
  The module \<open>boardgamegeek/objects/games.py\<close> builds its objects from loosely typed
  nested data. A value is \<open>None\<close>, a boolean, an (unbounded) integer, a string, a list,
  a dictionary with string keys (an association list: insertion order is what
  \<open>.items()\<close> iterates; lookups see the first binding of a key) or a
  \<open>datetime.datetime\<close> (year, month, day, hour, minute, second). Floating-point values
  are not represented. Characters are code points below 256.
\<close>

datatype pyval =
    PNone
  | PBool bool
  | PInt int
  | PStr string
  | PList "pyval list"
  | PDict "(string \<times> pyval) list"
  | PDateTime nat nat nat nat nat nat

type_synonym dict = "(string \<times> pyval) list"

text \<open>
  Exceptions are values. \<open>BGGError\<close> is the library's own exception
  (\<open>boardgamegeek.exceptions.BGGError\<close>) with its message; the others are Python's.
\<close>

datatype exn = BGGError string | KeyError | TypeError | ValueError | AttributeError

definition bind_exn :: "exn + 'a \<Rightarrow> ('a \<Rightarrow> exn + 'b) \<Rightarrow> exn + 'b" where
  "bind_exn m f = (case m of Inl e \<Rightarrow> Inl e | Inr x \<Rightarrow> f x)"

text \<open>\<open>try: ... except KeyError: raise BGGError(msg)\<close>: only a \<open>KeyError\<close> is converted.\<close>

definition except_KeyError :: "string \<Rightarrow> exn + 'a \<Rightarrow> exn + 'a" where
  "except_KeyError msg r = (case r of Inl e \<Rightarrow> (if e = KeyError then Inl (BGGError msg) else Inl e) | Inr x \<Rightarrow> Inr x)"

subsection \<open>Subscripting, \<open>.get\<close>, iteration, hashing\<close>

text \<open>\<open>v[k]\<close> for a string key \<open>k\<close>: a \<open>KeyError\<close> on a dictionary without the key,
  a \<open>TypeError\<close> on every other kind of value.\<close>

definition py_getitem :: "pyval \<Rightarrow> string \<Rightarrow> exn + pyval" where
  "py_getitem v k = (case v of
      PDict d \<Rightarrow> (case map_of d k of None \<Rightarrow> Inl KeyError | Some x \<Rightarrow> Inr x)
    | _ \<Rightarrow> Inl TypeError)"

text \<open>\<open>v.get(k)\<close> and \<open>v.get(k, default)\<close>: only a dictionary has the method.\<close>

definition py_get_default :: "pyval \<Rightarrow> string \<Rightarrow> pyval \<Rightarrow> exn + pyval" where
  "py_get_default v k dflt = (case v of
      PDict d \<Rightarrow> (case map_of d k of None \<Rightarrow> Inr dflt | Some x \<Rightarrow> Inr x)
    | _ \<Rightarrow> Inl AttributeError)"

definition py_get :: "pyval \<Rightarrow> string \<Rightarrow> exn + pyval" where
  "py_get v k = py_get_default v k PNone"

definition dict_get :: "dict \<Rightarrow> string \<Rightarrow> pyval" where
  "dict_get d k = (case map_of d k of None \<Rightarrow> PNone | Some x \<Rightarrow> x)"

text \<open>\<open>d[k] = v\<close>: an existing key keeps its position, a new key goes to the end.\<close>

fun dict_set :: "dict \<Rightarrow> string \<Rightarrow> pyval \<Rightarrow> dict" where
  "dict_set [] k v = [(k, v)]"
| "dict_set (p # ps) k v = (if fst p = k then (k, v) # ps else p # dict_set ps k v)"

text \<open>\<open>for x in v\<close>: a list gives its elements, a string its characters, a dictionary
  its keys; nothing else is iterable.\<close>

definition py_iter :: "pyval \<Rightarrow> exn + pyval list" where
  "py_iter v = (case v of
      PList xs \<Rightarrow> Inr xs
    | PStr s \<Rightarrow> Inr (map (\<lambda>c. PStr [c]) s)
    | PDict d \<Rightarrow> Inr (map (\<lambda>p. PStr (fst p)) d)
    | _ \<Rightarrow> Inl TypeError)"

text \<open>\<open>for x in data.get(k, [])\<close> on a dictionary \<open>data\<close>.\<close>

definition get_list :: "dict \<Rightarrow> string \<Rightarrow> exn + pyval list" where
  "get_list data k = (case map_of data k of None \<Rightarrow> Inr [] | Some v \<Rightarrow> py_iter v)"

text \<open>Membership in a \<open>set\<close> compares by hash and equality: \<open>True == 1\<close> and
  \<open>False == 0\<close>, lists and dictionaries are unhashable. \<open>hash_key\<close> gives the
  representative under which a value is stored in the model's sets.\<close>

definition hash_key :: "pyval \<Rightarrow> exn + pyval" where
  "hash_key v = (case v of
      PBool b \<Rightarrow> Inr (PInt (if b then 1 else 0))
    | PList xs \<Rightarrow> Inl TypeError
    | PDict d \<Rightarrow> Inl TypeError
    | _ \<Rightarrow> Inr v)"

subsection \<open>\<open>int(x)\<close>\<close>

text \<open>
  \<open>int\<close> of a string strips the white space that it accepts around a number (the
  characters 9 to 13, 32, 133 and 160), reads an optional sign and decimal digits,
  and refuses a text of more than 4300 digits (underscores, sign and white space not
  counted). Of a boolean or an integer it is the value; every other kind of value
  represented here is a \<open>TypeError\<close>. Floats, which \<open>int\<close> truncates or refuses
  with \<open>OverflowError\<close> (an infinity) or \<open>ValueError\<close> (not a number), are not
  represented.
\<close>

definition is_space :: "char \<Rightarrow> bool" where
  "is_space c = (of_char c \<in> {9, 10, 11, 12, 13, 32, 133, 160 :: nat})"

definition digit_of :: "char \<Rightarrow> nat option" where
  "digit_of c = (let n = (of_char c :: nat) in if 48 \<le> n \<and> n \<le> 57 then Some (n - 48) else None)"

text \<open>Decimal digits, single underscores allowed between two digits.\<close>

fun parse_digits :: "bool \<Rightarrow> nat \<Rightarrow> string \<Rightarrow> nat option" where
  "parse_digits prev acc [] = (if prev then Some acc else None)"
| "parse_digits prev acc (c # cs) =
     (if c = CHR ''_'' then (if prev \<and> cs \<noteq> [] then parse_digits False acc cs else None)
      else (case digit_of c of None \<Rightarrow> None | Some d \<Rightarrow> parse_digits True (10 * acc + d) cs))"

definition strip :: "string \<Rightarrow> string" where
  "strip s = rev (dropWhile is_space (rev (dropWhile is_space s)))"

definition count_digits :: "string \<Rightarrow> nat" where
  "count_digits s = length (filter (\<lambda>c. digit_of c \<noteq> None) s)"

definition int_of_string :: "string \<Rightarrow> int option" where
  "int_of_string s = (case strip s of
      [] \<Rightarrow> None
    | c # cs \<Rightarrow>
        if 4300 < count_digits (c # cs) then None
        else if c = CHR ''-'' then map_option (\<lambda>n. - int n) (parse_digits False 0 cs)
        else if c = CHR ''+'' then map_option int (parse_digits False 0 cs)
        else map_option int (parse_digits False 0 (c # cs)))"

fun py_int :: "pyval \<Rightarrow> exn + int" where
  "py_int (PInt n) = Inr n"
| "py_int (PBool b) = Inr (if b then 1 else 0)"
| "py_int (PStr s) = (case int_of_string s of None \<Rightarrow> Inl ValueError | Some n \<Rightarrow> Inr n)"
| "py_int PNone = Inl TypeError"
| "py_int (PList xs) = Inl TypeError"
| "py_int (PDict d) = Inl TypeError"
| "py_int (PDateTime y m d h mi s) = Inl TypeError"

subsection \<open>\<open>datetime.datetime.strptime(s, "%Y-%m-%dT%H:%M:%S")\<close>\<close>

text \<open>
  \<open>strptime\<close> turns the format into a regular expression, one group per directive,
  matched case-insensitively at the start of the string:
  \<open>%Y\<close> is \<open>\d\d\d\d\<close>, \<open>%m\<close> is \<open>1[0-2]|0[1-9]|[1-9]\<close>,
  \<open>%d\<close> is \<open>3[0-1]|[1-2]\d|0[1-9]|[1-9]| [1-9]\<close>, \<open>%H\<close> is \<open>2[0-3]|[0-1]\d|\d\<close>,
  \<open>%M\<close> is \<open>[0-5]\d|\d\<close> and \<open>%S\<close> is \<open>6[0-1]|[0-5]\d|\d\<close>.
  An alternative is a list of character classes; an item of the pattern is a list of
  alternatives, tried in order with backtracking.
\<close>

fun match_classes :: "string list \<Rightarrow> string \<Rightarrow> (string \<times> string) option" where
  "match_classes [] s = Some ([], s)"
| "match_classes (cl # cls) [] = None"
| "match_classes (cl # cls) (c # s) =
     (if c \<in> set cl then map_option (\<lambda>(m, r). (c # m, r)) (match_classes cls s) else None)"

definition alts :: "string list list \<Rightarrow> string \<Rightarrow> (string \<times> string) list" where
  "alts as s = List.map_filter (\<lambda>a. match_classes a s) as"

fun match_seq :: "string list list list \<Rightarrow> string \<Rightarrow> (string list \<times> string) list" where
  "match_seq [] s = [([], s)]"
| "match_seq (item # items) s =
     concat (map (\<lambda>(m, r). map (\<lambda>(ms, r'). (m # ms, r')) (match_seq items r)) (alts item s))"

definition dg :: string where "dg = ''0123456789''"
definition dg1 :: string where "dg1 = ''123456789''"

definition strptime_format :: "string list list list" where
  "strptime_format =
    [ [[dg, dg, dg, dg]], [[''-'']],
      [[''1'', ''012''], [''0'', dg1], [dg1]], [[''-'']],
      [[''3'', ''01''], [''12'', dg], [''0'', dg1], [dg1], ['' '', dg1]], [[''Tt'']],
      [[''2'', ''0123''], [''01'', dg], [dg]], [['':'']],
      [[''012345'', dg], [dg]], [['':'']],
      [[''6'', ''01''], [''012345'', dg], [dg]] ]"

definition num :: "string \<Rightarrow> nat" where
  "num s = (case parse_digits False 0 (strip s) of None \<Rightarrow> 0 | Some n \<Rightarrow> n)"

definition is_leap :: "nat \<Rightarrow> bool" where
  "is_leap y = (y mod 4 = 0 \<and> (y mod 100 \<noteq> 0 \<or> y mod 400 = 0))"

definition days_in_month :: "nat \<Rightarrow> nat \<Rightarrow> nat" where
  "days_in_month y m =
     (if m = 2 then (if is_leap y then 29 else 28)
      else if m \<in> {4, 6, 9, 11} then 30 else 31)"

text \<open>The text must be matched to its end (``unconverted data remains'' otherwise), and
  the \<open>datetime\<close> constructor rejects year 0, a day beyond the month's length and a
  second of 60 or 61. \<open>None\<close> stands for the \<open>ValueError\<close>.\<close>

definition strptime :: "string \<Rightarrow> pyval option" where
  "strptime s = (case match_seq strptime_format s of
      [] \<Rightarrow> None
    | (ms, rest) # _ \<Rightarrow>
        (if rest \<noteq> [] then None
         else (case ms of
            [Y, _, m, _, d, _, H, _, M, _, S] \<Rightarrow>
              (if 1 \<le> num Y \<and> num d \<le> days_in_month (num Y) (num m) \<and> num S \<le> 59
               then Some (PDateTime (num Y) (num m) (num d) (num H) (num M) (num S))
               else None)
          | _ \<Rightarrow> None)))"

section \<open>The base classes\<close>

text \<open>
  Modelled from the spec: the generic record wrapper \<open>DictObject\<close> of
  \<open>boardgamegeek/utils.py\<close>, which is not part of the sources at hand. It keeps the
  mapping it is given and performs no validation; an attribute that is not set on the
  object is looked up as a key of the mapping, and ``missing keys yield attribute not
  found rather than a default''.
\<close>

definition DictObject_getattr :: "dict \<Rightarrow> string \<Rightarrow> exn + pyval" where
  "DictObject_getattr data item = (case map_of data item of None \<Rightarrow> Inl AttributeError | Some v \<Rightarrow> Inr v)"

record thing =
  thing_id :: int
  thing_name :: pyval
  thing_data :: dict

text \<open>
  Modelled from the spec: the identified-thing wrapper \<open>Thing\<close> of
  \<open>boardgamegeek/objects/things.py\<close>, which is not part of the sources at hand.
  ``Input mapping MUST contain an id field coercible to integer and SHOULD contain a
  name field (absent resolves to null, never an error). Construction fails with a
  validation error if id is absent or non-coercible.'' The spec fixes the kind of the
  error (\<open>BGGError\<close>), not its message.
\<close>

definition Thing_init :: "dict \<Rightarrow> exn + thing" where
  "Thing_init data = (case map_of data ''id'' of
      None \<Rightarrow> Inl (BGGError ''missing id'')
    | Some v \<Rightarrow> (case py_int v of
          Inl e \<Rightarrow> Inl (BGGError ''id is not an int'')
        | Inr n \<Rightarrow> Inr \<lparr>thing_id = n, thing_name = dict_get data ''name'', thing_data = data\<rparr>))"

section \<open>\<open>BoardGameStats\<close>\<close>

text \<open>
  \<open>bgg_rank_attr\<close> is the attribute \<open>_bgg_rank\<close>: \<open>None\<close> while the attribute has not
  been assigned, \<open>Some PNone\<close> once it holds Python's \<open>None\<close>. \<open>BoardGameRank\<close> is a
  \<open>Thing\<close> that does not override the constructor.
\<close>

record stats =
  bgg_rank_attr :: "pyval option"
  ranks_attr :: "thing list"
  stats_data :: dict

text \<open>The body of \<open>try: self._bgg_rank = int(rank["value"]) except (KeyError, TypeError):
  self._bgg_rank = None\<close>; any other exception leaves the constructor.\<close>

definition parse_bgg_rank :: "dict \<Rightarrow> exn + pyval" where
  "parse_bgg_rank rank = (case map_of rank ''value'' of
      None \<Rightarrow> Inr PNone
    | Some v \<Rightarrow> (case py_int v of
          Inr n \<Rightarrow> Inr (PInt n)
        | Inl e \<Rightarrow> (if e = KeyError \<or> e = TypeError then Inr PNone else Inl e)))"

definition is_boardgame :: "pyval \<Rightarrow> bool" where
  "is_boardgame rank = (py_get rank ''name'' = Inr (PStr ''boardgame''))"

text \<open>One iteration of the loop over \<open>data.get("ranks", [])\<close>, on the pair of
  \<open>_bgg_rank\<close> and \<open>_ranks\<close>.\<close>

definition rank_step :: "pyval option \<times> thing list \<Rightarrow> pyval \<Rightarrow> exn + (pyval option \<times> thing list)" where
  "rank_step st rank = (case rank of
      PDict r \<Rightarrow>
        bind_exn (if is_boardgame rank then map_sum id Some (parse_bgg_rank r) else Inr (fst st))
          (\<lambda>b. bind_exn (Thing_init r) (\<lambda>t. Inr (b, snd st @ [t])))
    | _ \<Rightarrow> Inl AttributeError)"

fun ranks_loop :: "pyval option \<times> thing list \<Rightarrow> pyval list \<Rightarrow> exn + (pyval option \<times> thing list)" where
  "ranks_loop st [] = Inr st"
| "ranks_loop st (rank # rest) = bind_exn (rank_step st rank) (\<lambda>st'. ranks_loop st' rest)"

definition get_ranks :: "pyval \<Rightarrow> exn + pyval list" where
  "get_ranks data = bind_exn (py_get_default data ''ranks'' (PList [])) py_iter"

definition BoardGameStats_init :: "pyval \<Rightarrow> exn + stats" where
  "BoardGameStats_init data =
     bind_exn (get_ranks data) (\<lambda>rs.
     bind_exn (ranks_loop (None, []) rs) (\<lambda>st.
       (case data of
          PDict d \<Rightarrow> Inr \<lparr>bgg_rank_attr = fst st, ranks_attr = snd st, stats_data = d\<rparr>
        | _ \<Rightarrow> Inl AttributeError)))"

text \<open>
  The property \<open>bgg_rank\<close> returns \<open>self._bgg_rank\<close>. When the attribute was never
  assigned, that lookup falls through to the wrapper's \<open>__getattr__("_bgg_rank")\<close>;
  when this raises \<open>AttributeError\<close> too, the property has raised \<open>AttributeError\<close>
  and Python calls \<open>__getattr__("bgg_rank")\<close> for the attribute that was asked for.
\<close>

definition bgg_rank :: "stats \<Rightarrow> exn + pyval" where
  "bgg_rank s = (case bgg_rank_attr s of
      Some v \<Rightarrow> Inr v
    | None \<Rightarrow> (case DictObject_getattr (stats_data s) ''_bgg_rank'' of
          Inr v \<Rightarrow> Inr v
        | Inl e \<Rightarrow> DictObject_getattr (stats_data s) ''bgg_rank''))"

definition ranks :: "stats \<Rightarrow> thing list" where
  "ranks s = ranks_attr s"

section \<open>\<open>BoardGameVideo\<close> and \<open>BoardGameVersion\<close>\<close>

text \<open>
  The normalisation of \<open>post_date\<close>: a \<open>datetime\<close> is kept; for anything else
  \<open>strptime(date[:-6], "%Y-%m-%dT%H:%M:%S")\<close> is attempted under a bare \<open>except\<close>, so
  every failure (a value that cannot be sliced, a slice that is not a string, text that
  does not parse) gives \<open>None\<close>. \<open>date[:-6]\<close> of a string shorter than six characters
  is the empty string.
\<close>

definition fix_post_date :: "pyval \<Rightarrow> pyval" where
  "fix_post_date date = (case date of
      PDateTime y m d h mi s \<Rightarrow> date
    | PStr s \<Rightarrow> (case strptime (take (length s - 6) s) of None \<Rightarrow> PNone | Some dt \<Rightarrow> dt)
    | _ \<Rightarrow> PNone)"

text \<open>\<open>BoardGameVideo.__init__\<close>: \<open>kw\<close> is a copy of \<open>data\<close>; \<open>kw["uploader_id"]\<close> and
  \<open>int(...)\<close> are not guarded.\<close>

definition BoardGameVideo_init :: "dict \<Rightarrow> exn + thing" where
  "BoardGameVideo_init data =
     (let kw = (case map_of data ''post_date'' of
                  None \<Rightarrow> data
                | Some date \<Rightarrow> dict_set data ''post_date'' (fix_post_date date))
      in bind_exn (py_getitem (PDict kw) ''uploader_id'') (\<lambda>u.
         bind_exn (py_int u) (\<lambda>n.
         Thing_init (dict_set kw ''uploader_id'' (PInt n)))))"

definition uploader_id :: "thing \<Rightarrow> pyval" where
  "uploader_id v = dict_get (thing_data v) ''uploader_id''"

definition post_date :: "thing \<Rightarrow> pyval" where
  "post_date v = dict_get (thing_data v) ''post_date''"

text \<open>
  \<open>fix_url\<close> and \<open>fix_unsigned_negative\<close> come from \<open>boardgamegeek/utils.py\<close>, which is
  not part of the sources at hand: they are parameters of the constructors below, as
  functions that return a value or raise.
\<close>

definition fix_key :: "(pyval \<Rightarrow> exn + pyval) \<Rightarrow> dict \<Rightarrow> string \<Rightarrow> exn + dict" where
  "fix_key fix_url kw to_fix = (case map_of kw to_fix of
      None \<Rightarrow> Inr kw
    | Some u \<Rightarrow> bind_exn (fix_url u) (\<lambda>u'. Inr (dict_set kw to_fix u')))"

definition BoardGameVersion_init :: "(pyval \<Rightarrow> exn + pyval) \<Rightarrow> dict \<Rightarrow> exn + thing" where
  "BoardGameVersion_init fix_url data =
     bind_exn (fix_key fix_url data ''thumbnail'') (\<lambda>kw.
     bind_exn (fix_key fix_url kw ''image'') Thing_init)"

section \<open>\<open>BaseGame\<close> and \<open>BoardGame\<close>\<close>

subsection \<open>The loops that keep identifiers unique\<close>

text \<open>
  The constructors fill \<open>_versions\<close>, \<open>_expansions\<close>, \<open>_expands\<close> and \<open>_videos\<close> with
  the same loop: \<open>x["id"]\<close> is looked up in the set of identifiers seen so far; an
  unseen element is constructed, appended and its identifier added; a \<open>KeyError\<close>
  raised anywhere in the body (the missing \<open>id\<close>, or the element's constructor)
  becomes \<open>BGGError(msg)\<close>. The four loops differ in the constructor, in the message
  and in whether the identifier is added before or after the constructor runs, which
  cannot be observed since a failing constructor aborts the whole construction.
\<close>

definition elem_id :: "pyval \<Rightarrow> exn + pyval" where
  "elem_id x = bind_exn (py_getitem x ''id'') hash_key"

definition unique_step :: "(dict \<Rightarrow> exn + 'a) \<Rightarrow> 'a list \<times> pyval set \<Rightarrow> pyval \<Rightarrow> exn + ('a list \<times> pyval set)" where
  "unique_step ctor st x =
     bind_exn (elem_id x) (\<lambda>k.
       if k \<in> snd st then Inr st
       else (case x of
               PDict d \<Rightarrow> bind_exn (ctor d) (\<lambda>t. Inr (fst st @ [t], insert k (snd st)))
             | _ \<Rightarrow> Inl TypeError))"

fun unique_loop :: "string \<Rightarrow> (dict \<Rightarrow> exn + 'a) \<Rightarrow> 'a list \<times> pyval set \<Rightarrow> pyval list \<Rightarrow> exn + ('a list \<times> pyval set)" where
  "unique_loop msg ctor st [] = Inr st"
| "unique_loop msg ctor st (x # xs) =
     bind_exn (except_KeyError msg (unique_step ctor st x)) (\<lambda>st'. unique_loop msg ctor st' xs)"

subsection \<open>Poll results\<close>

fun map_exn :: "('a \<Rightarrow> exn + 'b) \<Rightarrow> 'a list \<Rightarrow> exn + 'b list" where
  "map_exn f [] = Inr []"
| "map_exn f (x # xs) = bind_exn (f x) (\<lambda>y. bind_exn (map_exn f xs) (\<lambda>ys. Inr (y # ys)))"

definition py_items :: "pyval \<Rightarrow> exn + dict" where
  "py_items v = (case v of PDict d \<Rightarrow> Inr d | _ \<Rightarrow> Inl AttributeError)"

text \<open>\<open>if key in data: for k, v in data[key]["results"].items(): append(mk(k, v))\<close>;
  a poll result is a \<open>DictObject\<close> over the dictionary built for it.\<close>

definition poll_results :: "dict \<Rightarrow> string \<Rightarrow> (string \<times> pyval \<Rightarrow> exn + dict) \<Rightarrow> exn + dict list" where
  "poll_results data key mk = (case map_of data key of
      None \<Rightarrow> Inr []
    | Some p \<Rightarrow> bind_exn (py_getitem p ''results'') (\<lambda>res.
                bind_exn (py_items res) (map_exn mk)))"

definition numplayers_result :: "string \<times> pyval \<Rightarrow> exn + dict" where
  "numplayers_result cr =
     bind_exn (py_getitem (snd cr) ''best'') (\<lambda>best.
     bind_exn (py_getitem (snd cr) ''recommended'') (\<lambda>recommended.
     bind_exn (py_getitem (snd cr) ''not_recommended'') (\<lambda>not_recommended.
       Inr [(''_count'', PStr (fst cr)), (''_best'', best),
            (''_recommended'', recommended), (''_not_recommended'', not_recommended)])))"

definition playerage_result :: "string \<times> pyval \<Rightarrow> exn + dict" where
  "playerage_result av = Inr [(''_age'', PStr (fst av)), (''_votes'', snd av)]"

definition langdeps_result :: "string \<times> pyval \<Rightarrow> exn + dict" where
  "langdeps_result ld =
     bind_exn (py_getitem (snd ld) ''description'') (\<lambda>description.
     bind_exn (py_getitem (snd ld) ''num_votes'') (\<lambda>num_votes.
       Inr [(''_level'', PStr (fst ld)), (''_description'', description), (''_votes'', num_votes)]))"

subsection \<open>\<open>BaseGame.__init__\<close>\<close>

record base_game =
  thumbnail_attr :: pyval
  image_attr :: pyval
  stats_attr :: stats
  versions_attr :: "thing list"
  versions_set :: "pyval set"
  year_published :: pyval
  game_id :: int
  game_name :: pyval
  game_data :: dict

definition fix_optional_url :: "(pyval \<Rightarrow> exn + pyval) \<Rightarrow> dict \<Rightarrow> string \<Rightarrow> exn + pyval" where
  "fix_optional_url fix_url data k = (case map_of data k of None \<Rightarrow> Inr PNone | Some u \<Rightarrow> fix_url u)"

definition get_year_published :: "(pyval \<Rightarrow> exn + pyval) \<Rightarrow> dict \<Rightarrow> exn + pyval" where
  "get_year_published fix_unsigned_negative data = (case map_of data ''yearpublished'' of
      None \<Rightarrow> Inr PNone
    | Some y \<Rightarrow> (case fix_unsigned_negative y of
          Inl e \<Rightarrow> (if e = KeyError then Inr PNone else Inl e)
        | Inr v \<Rightarrow> Inr v))"

definition BaseGame_init ::
  "(pyval \<Rightarrow> exn + pyval) \<Rightarrow> (pyval \<Rightarrow> exn + pyval) \<Rightarrow> dict \<Rightarrow> exn + base_game" where
  "BaseGame_init fix_url fix_unsigned_negative data =
     bind_exn (fix_optional_url fix_url data ''thumbnail'') (\<lambda>thumbnail.
     bind_exn (fix_optional_url fix_url data ''image'') (\<lambda>image.
     bind_exn (case map_of data ''stats'' of
                 None \<Rightarrow> Inl (BGGError ''invalid data'')
               | Some sd \<Rightarrow> BoardGameStats_init sd) (\<lambda>st.
     bind_exn (get_year_published fix_unsigned_negative data) (\<lambda>year.
     bind_exn (get_list data ''versions'') (\<lambda>vs.
     bind_exn (unique_loop ''invalid version data'' (BoardGameVersion_init fix_url) ([], {}) vs) (\<lambda>versions.
     bind_exn (Thing_init data) (\<lambda>t.
       Inr \<lparr>thumbnail_attr = thumbnail, image_attr = image, stats_attr = st,
            versions_attr = fst versions, versions_set = snd versions,
            year_published = year,
            game_id = thing_id t, game_name = thing_name t, game_data = thing_data t\<rparr>)))))))"

subsection \<open>\<open>BoardGame.__init__\<close>\<close>

record board_game = base_game +
  expansions_attr :: "thing list"
  expansions_set :: "pyval set"
  expands_attr :: "thing list"
  expands_set :: "pyval set"
  videos_attr :: "thing list"
  videos_ids :: "pyval set"
  comments_attr :: "pyval list"
  poll_results_numplayers :: "dict list"
  poll_results_playerage :: "dict list"
  poll_results_langdeps :: "dict list"

text \<open>The constructor fills its own attributes first (\<open>BoardGame_attrs\<close>) and calls
  \<open>BaseGame.__init__\<close> last. \<open>add_comment\<close> wraps a comment without validation, so
  \<open>_comments\<close> is the list of the input's comments.\<close>

definition BoardGame_attrs :: "dict \<Rightarrow> exn + unit board_game_ext" where
  "BoardGame_attrs data =
     bind_exn (get_list data ''expansions'') (\<lambda>es.
     bind_exn (unique_loop ''invalid expansion data'' Thing_init ([], {}) es) (\<lambda>expansions.
     bind_exn (get_list data ''expands'') (\<lambda>xs.
     bind_exn (unique_loop ''invalid expanded game data'' Thing_init ([], {}) xs) (\<lambda>expands.
     bind_exn (get_list data ''videos'') (\<lambda>vs.
     bind_exn (unique_loop ''invalid video data'' BoardGameVideo_init ([], {}) vs) (\<lambda>videos.
     bind_exn (get_list data ''comments'') (\<lambda>comments.
     bind_exn (poll_results data ''suggested_numplayers'' numplayers_result) (\<lambda>numplayers.
     bind_exn (poll_results data ''suggested_playerage'' playerage_result) (\<lambda>playerage.
     bind_exn (poll_results data ''language_dependence'' langdeps_result) (\<lambda>langdeps.
       Inr \<lparr>expansions_attr = fst expansions, expansions_set = snd expansions,
            expands_attr = fst expands, expands_set = snd expands,
            videos_attr = fst videos, videos_ids = snd videos,
            comments_attr = comments,
            poll_results_numplayers = numplayers,
            poll_results_playerage = playerage,
            poll_results_langdeps = langdeps\<rparr>))))))))))"

definition BoardGame_init ::
  "(pyval \<Rightarrow> exn + pyval) \<Rightarrow> (pyval \<Rightarrow> exn + pyval) \<Rightarrow> dict \<Rightarrow> exn + board_game" where
  "BoardGame_init fix_url fix_unsigned_negative data =
     bind_exn (BoardGame_attrs data) (\<lambda>attrs.
     bind_exn (BaseGame_init fix_url fix_unsigned_negative data) (\<lambda>b.
       Inr (base_game.extend b attrs)))"

definition expansions :: "board_game \<Rightarrow> thing list" where
  "expansions g = expansions_attr g"

definition expands :: "board_game \<Rightarrow> thing list" where
  "expands g = expands_attr g"

definition videos :: "board_game \<Rightarrow> thing list" where
  "videos g = videos_attr g"

definition versions :: "board_game \<Rightarrow> thing list" where
  "versions g = versions_attr g"

definition comments :: "board_game \<Rightarrow> pyval list" where
  "comments g = comments_attr g"

subsection \<open>The mutators\<close>

text \<open>
  A mutator returns what the call did (\<open>Inr ()\<close> or the exception) together with the
  object afterwards: an exception raised after the first assignments leaves those
  assignments in place. \<open>self._data[key]\<close> raises \<open>KeyError\<close> inside the \<open>try\<close> when the
  game's mapping has no such key; \<open>.append\<close> exists on lists only.
\<close>

definition add_comment :: "board_game \<Rightarrow> pyval \<Rightarrow> board_game" where
  "add_comment g data = g\<lparr>comments_attr := comments_attr g @ [data]\<rparr>"

definition add_expansion :: "board_game \<Rightarrow> pyval \<Rightarrow> (exn + unit) \<times> board_game" where
  "add_expansion g data = (case elem_id data of
      Inl e \<Rightarrow> (except_KeyError ''invalid expansion data'' (Inl e), g)
    | Inr k \<Rightarrow>
        if k \<in> expansions_set g then (Inr (), g)
        else (case map_of (game_data g) ''expansions'' of
            None \<Rightarrow> (Inl (BGGError ''invalid expansion data''), g)
          | Some l \<Rightarrow> (case l of
              PList raw \<Rightarrow>
                (let g1 = g\<lparr>game_data := dict_set (game_data g) ''expansions'' (PList (raw @ [data])),
                            expansions_set := insert k (expansions_set g)\<rparr>
                 in (case bind_exn (py_items data) Thing_init of
                       Inl e \<Rightarrow> (except_KeyError ''invalid expansion data'' (Inl e), g1)
                     | Inr t \<Rightarrow> (Inr (), g1\<lparr>expansions_attr := expansions_attr g1 @ [t]\<rparr>)))
            | _ \<Rightarrow> (Inl AttributeError, g))))"

definition add_expanded_game :: "board_game \<Rightarrow> pyval \<Rightarrow> (exn + unit) \<times> board_game" where
  "add_expanded_game g data = (case elem_id data of
      Inl e \<Rightarrow> (except_KeyError ''invalid expanded game data'' (Inl e), g)
    | Inr k \<Rightarrow>
        if k \<in> expands_set g then (Inr (), g)
        else (case map_of (game_data g) ''expands'' of
            None \<Rightarrow> (Inl (BGGError ''invalid expanded game data''), g)
          | Some l \<Rightarrow> (case l of
              PList raw \<Rightarrow>
                (let g1 = g\<lparr>game_data := dict_set (game_data g) ''expands'' (PList (raw @ [data])),
                            expands_set := insert k (expands_set g)\<rparr>
                 in (case bind_exn (py_items data) Thing_init of
                       Inl e \<Rightarrow> (except_KeyError ''invalid expanded game data'' (Inl e), g1)
                     | Inr t \<Rightarrow> (Inr (), g1\<lparr>expands_attr := expands_attr g1 @ [t]\<rparr>)))
            | _ \<Rightarrow> (Inl AttributeError, g))))"

section \<open>Notions used in the statements\<close>

text \<open>What the guarded conversion makes of a rank's \<open>value\<close> when it does not raise.\<close>

definition rank_value :: "pyval \<Rightarrow> pyval" where
  "rank_value rank = (case rank of
      PDict r \<Rightarrow> (case parse_bgg_rank r of Inr v \<Rightarrow> v | Inl e \<Rightarrow> PNone)
    | _ \<Rightarrow> PNone)"

text \<open>A rank the loop of \<open>BoardGameStats\<close> gets through: a mapping that \<open>Thing\<close> accepts
  and, when its name is \<open>boardgame\<close>, whose value the guarded conversion handles.\<close>

definition rank_ok :: "pyval \<Rightarrow> bool" where
  "rank_ok x = (case x of
      PDict r \<Rightarrow> (case Thing_init r of
          Inl e \<Rightarrow> False
        | Inr t \<Rightarrow> (if is_boardgame x then (case parse_bgg_rank r of Inl e \<Rightarrow> False | Inr v \<Rightarrow> True)
                   else True))
    | _ \<Rightarrow> False)"

text \<open>Deduplication by identifier, as the spec words it: the first element is kept,
  every later element with the same \<open>id\<close> is dropped, and so on for the rest.\<close>

fun first_by_id :: "pyval list \<Rightarrow> pyval list" where
  "first_by_id [] = []"
| "first_by_id (x # xs) = x # first_by_id (filter (\<lambda>y. elem_id y \<noteq> elem_id x) xs)"

text \<open>A constructor applied to an element of an input list.\<close>

definition construct :: "(dict \<Rightarrow> exn + 'a) \<Rightarrow> pyval \<Rightarrow> exn + 'a" where
  "construct ctor x = bind_exn (py_items x) ctor"

section \<open>Basic facts\<close>

lemma bind_exn_Inr_iff: "bind_exn m f = Inr y \<longleftrightarrow> (\<exists>x. m = Inr x \<and> f x = Inr y)"
  by (cases m) (simp_all add: bind_exn_def)

lemma bind_exn_Inr [simp]: "bind_exn (Inr x) f = f x"
  by (simp add: bind_exn_def)

lemma bind_exn_Inl [simp]: "bind_exn (Inl e) f = Inl e"
  by (simp add: bind_exn_def)

lemma Thing_init_data: "Thing_init r = Inr t \<Longrightarrow> thing_data t = r"
  by (auto simp: Thing_init_def split: option.splits sum.splits)

subsection \<open>The loop over the ranks\<close>

lemma rank_step_Inr:
  assumes "rank_step st rank = Inr st'"
  shows "\<exists>r t. rank = PDict r \<and> Thing_init r = Inr t \<and> snd st' = snd st @ [t] \<and>
           (if is_boardgame rank then parse_bgg_rank r = Inr (rank_value rank) \<and> fst st' = Some (rank_value rank)
            else fst st' = fst st)"
  using assms
  by (cases rank) (auto simp: rank_step_def bind_exn_Inr_iff rank_value_def split: if_splits sum.splits)

lemma ranks_loop_Inr:
  "ranks_loop st rs = Inr st' \<Longrightarrow>
     map (\<lambda>t. PDict (thing_data t)) (snd st') = map (\<lambda>t. PDict (thing_data t)) (snd st) @ rs \<and>
     fst st' = (if filter is_boardgame rs = [] then fst st
                else Some (rank_value (last (filter is_boardgame rs)))) \<and>
     list_all rank_ok rs"
proof (induction rs arbitrary: st)
  case Nil
  then show ?case by simp
next
  case (Cons rank rest)
  from Cons.prems obtain st1 where s1: "rank_step st rank = Inr st1" and s2: "ranks_loop st1 rest = Inr st'"
    by (auto simp: bind_exn_Inr_iff)
  from rank_step_Inr[OF s1] obtain r t where
    r: "rank = PDict r" "Thing_init r = Inr t" "snd st1 = snd st @ [t]"
    and b: "if is_boardgame rank then parse_bgg_rank r = Inr (rank_value rank) \<and> fst st1 = Some (rank_value rank)
            else fst st1 = fst st"
    by blast
  note IH = Cons.IH[OF s2]
  have d: "thing_data t = r" using r(2) by (rule Thing_init_data)
  have ok: "rank_ok rank" using r b by (auto simp: rank_ok_def split: if_splits)
  show ?case
  proof (intro conjI)
    show "map (\<lambda>t. PDict (thing_data t)) (snd st') = map (\<lambda>t. PDict (thing_data t)) (snd st) @ rank # rest"
      using IH r d by simp
    show "fst st' = (if filter is_boardgame (rank # rest) = [] then fst st
                else Some (rank_value (last (filter is_boardgame (rank # rest)))))"
      using IH b by (auto split: if_splits)
    show "list_all rank_ok (rank # rest)"
      using IH ok by simp
  qed
qed

lemma rank_step_ok: "rank_ok x \<Longrightarrow> \<exists>st'. rank_step st x = Inr st'"
  by (cases x) (auto simp: rank_ok_def rank_step_def split: sum.splits if_splits)

lemma ranks_loop_ok: "list_all rank_ok rs \<Longrightarrow> \<exists>st'. ranks_loop st rs = Inr st'"
proof (induction rs arbitrary: st)
  case Nil
  then show ?case by simp
next
  case (Cons x xs)
  then obtain st1 where "rank_step st x = Inr st1" using rank_step_ok[of x st] by auto
  with Cons show ?case by auto
qed

lemma get_ranks_dict: "get_ranks data = Inr rs \<Longrightarrow> \<exists>d. data = PDict d"
  by (cases data) (auto simp: get_ranks_def py_get_default_def)

lemma BoardGameStats_init_Inr:
  assumes "BoardGameStats_init data = Inr s" and "get_ranks data = Inr rs"
  shows "ranks_loop (None, []) rs = Inr (bgg_rank_attr s, ranks_attr s)"
  using assms get_ranks_dict[OF assms(2)]
  by (auto simp: BoardGameStats_init_def bind_exn_Inr_iff)

lemma BoardGameStats_init_ok:
  assumes "get_ranks data = Inr rs" and "ranks_loop (None, []) rs = Inr st"
  shows "\<exists>d. data = PDict d \<and> BoardGameStats_init data = Inr \<lparr>bgg_rank_attr = fst st, ranks_attr = snd st, stats_data = d\<rparr>"
  using assms get_ranks_dict[OF assms(1)]
  by (auto simp: BoardGameStats_init_def)

lemma BoardGameStats_init_data: "BoardGameStats_init data = Inr s \<Longrightarrow> PDict (stats_data s) = data"
  by (cases data) (auto simp: BoardGameStats_init_def bind_exn_Inr_iff)

lemma rank_value_int:
  "map_of r ''value'' = Some v \<Longrightarrow> py_int v = Inr n \<Longrightarrow> rank_value (PDict r) = PInt n"
  by (simp add: rank_value_def parse_bgg_rank_def)

lemma rank_value_null:
  "map_of r ''value'' = None \<or> (\<exists>v. map_of r ''value'' = Some v \<and> py_int v = Inl TypeError) \<Longrightarrow>
   parse_bgg_rank r = Inr PNone"
  by (auto simp: parse_bgg_rank_def)

section \<open>The statistics aggregate\<close>

text \<open>
  Claim C1, as stated, selects the primary rank by the field \<open>type\<close>. On the claim's own
  ranks (with identifiers, so that \<open>Thing\<close> accepts them) no \<open>_bgg_rank\<close> is stored and
  reading \<open>bgg_rank\<close> raises \<open>AttributeError\<close> instead of giving 7; without
  identifiers the construction fails in \<open>Thing\<close>.
\<close>

theorem C1_counterexample:
  "bind_exn (BoardGameStats_init (PDict [(''ranks'', PList
       [PDict [(''id'', PInt 1), (''type'', PStr ''family''), (''value'', PInt 10)],
        PDict [(''id'', PInt 2), (''type'', PStr ''boardgame''), (''value'', PInt 5)],
        PDict [(''id'', PInt 3), (''type'', PStr ''boardgame''), (''value'', PInt 7)]])]))
     bgg_rank = Inl AttributeError
   \<and> isl (BoardGameStats_init (PDict [(''ranks'', PList
       [PDict [(''type'', PStr ''family''), (''value'', PInt 10)],
        PDict [(''type'', PStr ''boardgame''), (''value'', PInt 5)],
        PDict [(''type'', PStr ''boardgame''), (''value'', PInt 7)]])]))"
  by (simp add: BoardGameStats_init_def get_ranks_def py_get_default_def py_iter_def rank_step_def
      is_boardgame_def py_get_def Thing_init_def dict_get_def bgg_rank_def DictObject_getattr_def)

text \<open>
  Claim C1, amended: the constructor selects by the field \<open>name\<close>. When construction
  succeeds, the exposed ranks are the input's ranks, all of them and in input order, and
  \<open>bgg_rank\<close> is the integer value of the last rank whose \<open>name\<close> is \<open>boardgame\<close>.
\<close>

theorem C1_last_boardgame_name_wins:
  assumes "BoardGameStats_init data = Inr s" and "get_ranks data = Inr rs"
  shows "map (\<lambda>t. PDict (thing_data t)) (ranks s) = rs \<and>
         (\<forall>r v n. filter is_boardgame rs \<noteq> [] \<and> last (filter is_boardgame rs) = PDict r \<and>
                  map_of r ''value'' = Some v \<and> py_int v = Inr n \<longrightarrow> bgg_rank s = Inr (PInt n))"
proof -
  note L = ranks_loop_Inr[OF BoardGameStats_init_Inr[OF assms]]
  from L have "map (\<lambda>t. PDict (thing_data t)) (ranks s) = rs" by (simp add: ranks_def)
  moreover have "bgg_rank s = Inr (PInt n)"
    if "filter is_boardgame rs \<noteq> []" "last (filter is_boardgame rs) = PDict r"
       "map_of r ''value'' = Some v" "py_int v = Inr n" for r v n
    using L that by (simp add: bgg_rank_def rank_value_int)
  ultimately show ?thesis by blast
qed


text \<open>The witness: the ranks of the claim with \<open>name\<close> in place of \<open>type\<close>; the
  last of the two \<open>boardgame\<close> entries gives 7, and the three entries stay in order.\<close>

theorem C1_last_boardgame_name_wins_witness:
  "\<exists>s. BoardGameStats_init (PDict [(''ranks'', PList
       [PDict [(''id'', PInt 1), (''name'', PStr ''family''), (''value'', PInt 10)],
        PDict [(''id'', PInt 2), (''name'', PStr ''boardgame''), (''value'', PInt 5)],
        PDict [(''id'', PInt 3), (''name'', PStr ''boardgame''), (''value'', PInt 7)]])]) = Inr s
     \<and> bgg_rank s = Inr (PInt 7)
     \<and> map (\<lambda>t. PDict (thing_data t)) (ranks s) =
       [PDict [(''id'', PInt 1), (''name'', PStr ''family''), (''value'', PInt 10)],
        PDict [(''id'', PInt 2), (''name'', PStr ''boardgame''), (''value'', PInt 5)],
        PDict [(''id'', PInt 3), (''name'', PStr ''boardgame''), (''value'', PInt 7)]]"
proof -
  let ?r3 = "[(''id'', PInt 3), (''name'', PStr ''boardgame''), (''value'', PInt 7)]"
  let ?rs = "[PDict [(''id'', PInt 1), (''name'', PStr ''family''), (''value'', PInt 10)],
        PDict [(''id'', PInt 2), (''name'', PStr ''boardgame''), (''value'', PInt 5)],
        PDict ?r3]"
  let ?d = "PDict [(''ranks'', PList ?rs)]"
  have g: "get_ranks ?d = Inr ?rs"
    by (simp add: get_ranks_def py_get_default_def py_iter_def)
  have "\<exists>s. BoardGameStats_init ?d = Inr s"
    by (simp add: BoardGameStats_init_def get_ranks_def py_iter_def rank_step_def is_boardgame_def
        py_get_def py_get_default_def Thing_init_def dict_get_def parse_bgg_rank_def)
  then obtain s where s: "BoardGameStats_init ?d = Inr s" ..
  have f: "filter is_boardgame ?rs \<noteq> [] \<and> last (filter is_boardgame ?rs) = PDict ?r3
           \<and> map_of ?r3 ''value'' = Some (PInt 7) \<and> py_int (PInt 7) = Inr 7"
    by (simp add: is_boardgame_def py_get_def py_get_default_def)
  note T = C1_last_boardgame_name_wins[OF s g]
  have b: "bgg_rank s = Inr (PInt 7)"
    using T[THEN conjunct2, rule_format, OF f] .
  show ?thesis
  proof (intro exI conjI)
    show "BoardGameStats_init ?d = Inr s" by (rule s)
    show "bgg_rank s = Inr (PInt 7)" by (rule b)
    show "map (\<lambda>t. PDict (thing_data t)) (ranks s) = ?rs" by (rule T[THEN conjunct1])
  qed
qed
text \<open>
  Claim C10: when no rank has the name \<open>boardgame\<close>, the constructor never assigns
  \<open>_bgg_rank\<close> (not even \<open>None\<close>); the object wraps the mapping it was given, and
  reading \<open>bgg_rank\<close> is the wrapper's dynamic lookup in that mapping: the value under
  the key \<open>_bgg_rank\<close>, else the value under the key \<open>bgg_rank\<close>, else
  \<open>AttributeError\<close>. No value assigned by the constructor is returned.
\<close>

theorem C10_no_boardgame_name_leaves_rank_unset:
  assumes "BoardGameStats_init data = Inr s" and "get_ranks data = Inr rs"
    and "filter is_boardgame rs = []"
  shows "bgg_rank_attr s = None \<and> PDict (stats_data s) = data \<and>
         bgg_rank s = (case map_of (stats_data s) ''_bgg_rank'' of
                         Some v \<Rightarrow> Inr v
                       | None \<Rightarrow> (case map_of (stats_data s) ''bgg_rank'' of
                             Some v \<Rightarrow> Inr v
                           | None \<Rightarrow> Inl AttributeError))"
proof -
  note L = ranks_loop_Inr[OF BoardGameStats_init_Inr[OF assms(1,2)]]
  with assms(3) have u: "bgg_rank_attr s = None" by simp
  have d: "PDict (stats_data s) = data"
    using assms(1) by (rule BoardGameStats_init_data)
  from u have "bgg_rank s = (case map_of (stats_data s) ''_bgg_rank'' of
                         Some v \<Rightarrow> Inr v
                       | None \<Rightarrow> (case map_of (stats_data s) ''bgg_rank'' of
                             Some v \<Rightarrow> Inr v
                           | None \<Rightarrow> Inl AttributeError))"
    by (simp add: bgg_rank_def DictObject_getattr_def split: option.splits)
  with u d show ?thesis by (intro conjI)
qed

text \<open>The witness: one rank of type \<open>boardgame\<close> whose name is something else, where
  reading \<open>bgg_rank\<close> raises; and a mapping without ranks that has a key \<open>bgg_rank\<close>,
  whose value is what reading gives.\<close>

theorem C10_no_boardgame_name_leaves_rank_unset_witness:
  "(\<exists>s. BoardGameStats_init (PDict [(''ranks'', PList
       [PDict [(''id'', PInt 1), (''name'', PStr ''strategygames''), (''type'', PStr ''boardgame''), (''value'', PInt 10)]])]) = Inr s
     \<and> bgg_rank_attr s = None \<and> bgg_rank s = Inl AttributeError)
   \<and> (\<exists>s. BoardGameStats_init (PDict [(''ranks'', PList []), (''bgg_rank'', PInt 99)]) = Inr s
     \<and> bgg_rank_attr s = None \<and> bgg_rank s = Inr (PInt 99))"
proof (rule conjI)
  let ?rs = "[PDict [(''id'', PInt 1), (''name'', PStr ''strategygames''), (''type'', PStr ''boardgame''), (''value'', PInt 10)]]"
  let ?m = "[(''ranks'', PList ?rs)]"
  let ?d = "PDict ?m"
  have g: "get_ranks ?d = Inr ?rs"
    by (simp add: get_ranks_def py_get_default_def py_iter_def)
  have "\<exists>s. BoardGameStats_init ?d = Inr s"
    by (simp add: BoardGameStats_init_def g rank_step_def is_boardgame_def py_get_def
        py_get_default_def Thing_init_def dict_get_def parse_bgg_rank_def)
  then obtain s where s: "BoardGameStats_init ?d = Inr s" ..
  have f: "filter is_boardgame ?rs = []"
    by (simp add: is_boardgame_def py_get_def py_get_default_def)
  note T = C10_no_boardgame_name_leaves_rank_unset[OF s g f]
  from T[THEN conjunct2, THEN conjunct1] have m: "stats_data s = ?m" by simp
  have r: "bgg_rank s = Inl AttributeError"
    using T[THEN conjunct2, THEN conjunct2] by (simp add: m)
  show "\<exists>s. BoardGameStats_init ?d = Inr s \<and> bgg_rank_attr s = None \<and> bgg_rank s = Inl AttributeError"
  proof (intro exI conjI)
    show "BoardGameStats_init ?d = Inr s" by (rule s)
    show "bgg_rank_attr s = None" by (rule T[THEN conjunct1])
    show "bgg_rank s = Inl AttributeError" by (rule r)
  qed
next
  let ?m = "[(''ranks'', PList []), (''bgg_rank'', PInt 99)]"
  let ?d = "PDict ?m"
  have g: "get_ranks ?d = Inr []"
    by (simp add: get_ranks_def py_get_default_def py_iter_def)
  have "\<exists>s. BoardGameStats_init ?d = Inr s"
    by (simp add: BoardGameStats_init_def g)
  then obtain s where s: "BoardGameStats_init ?d = Inr s" ..
  have f: "filter is_boardgame [] = []" by simp
  note T = C10_no_boardgame_name_leaves_rank_unset[OF s g f]
  from T[THEN conjunct2, THEN conjunct1] have m: "stats_data s = ?m" by simp
  have r: "bgg_rank s = Inr (PInt 99)"
    using T[THEN conjunct2, THEN conjunct2] by (simp add: m)
  show "\<exists>s. BoardGameStats_init ?d = Inr s \<and> bgg_rank_attr s = None \<and> bgg_rank s = Inr (PInt 99)"
  proof (intro exI conjI)
    show "BoardGameStats_init ?d = Inr s" by (rule s)
    show "bgg_rank_attr s = None" by (rule T[THEN conjunct1])
    show "bgg_rank s = Inr (PInt 99)" by (rule r)
  qed
qed

text \<open>
  Claim C2, as stated, fails twice. A rank named \<open>boardgame\<close> with the value
  \<open>"Not Ranked"\<close> makes \<open>int\<close> raise \<open>ValueError\<close>, which the handler for
  \<open>(KeyError, TypeError)\<close> lets through; and a rank that is \<open>boardgame\<close> by its \<open>type\<close>
  only leaves \<open>bgg_rank\<close> unassigned rather than null.
\<close>

theorem C2_counterexample:
  "BoardGameStats_init (PDict [(''ranks'', PList
       [PDict [(''id'', PInt 1), (''type'', PStr ''boardgame''), (''name'', PStr ''boardgame''),
               (''value'', PStr ''Not Ranked'')]])]) = Inl ValueError
   \<and> bind_exn (BoardGameStats_init (PDict [(''ranks'', PList
       [PDict [(''id'', PInt 1), (''type'', PStr ''boardgame''), (''value'', PStr ''Not Ranked'')]])]))
       bgg_rank = Inl AttributeError"
proof -
  have "int_of_string ''Not Ranked'' = None" by code_simp
  then show ?thesis
  by (simp add: BoardGameStats_init_def get_ranks_def py_get_default_def py_iter_def rank_step_def
      is_boardgame_def py_get_def Thing_init_def dict_get_def bgg_rank_def DictObject_getattr_def
      parse_bgg_rank_def)
qed

text \<open>
  Claim C2, amended: when the last rank named \<open>boardgame\<close> has no \<open>value\<close>, or a value
  that \<open>int\<close> rejects with \<open>TypeError\<close> (such as \<open>None\<close>), and the other ranks are
  processed without error, construction succeeds and \<open>bgg_rank\<close> is null.
\<close>

theorem C2_null_rank_when_value_absent_or_mistyped:
  assumes rs: "get_ranks data = Inr (pre @ PDict r # post)"
    and pre: "list_all rank_ok pre"
    and post: "list_all rank_ok post" "filter is_boardgame post = []"
    and name: "map_of r ''name'' = Some (PStr ''boardgame'')"
    and thing: "Thing_init r = Inr t"
    and val: "map_of r ''value'' = None \<or> (\<exists>v. map_of r ''value'' = Some v \<and> py_int v = Inl TypeError)"
  shows "\<exists>s. BoardGameStats_init data = Inr s \<and> bgg_rank s = Inr PNone"
proof -
  have p: "parse_bgg_rank r = Inr PNone" using val by (rule rank_value_null)
  have bg: "is_boardgame (PDict r)" using name by (simp add: is_boardgame_def py_get_def py_get_default_def)
  have "rank_ok (PDict r)" using p bg thing by (simp add: rank_ok_def)
  with pre post have "list_all rank_ok (pre @ PDict r # post)" by simp
  from ranks_loop_ok[OF this] obtain st where
    st: "ranks_loop (None, []) (pre @ PDict r # post) = Inr st" by blast
  from BoardGameStats_init_ok[OF rs st] obtain d where
    s: "BoardGameStats_init data = Inr \<lparr>bgg_rank_attr = fst st, ranks_attr = snd st, stats_data = d\<rparr>"
    by blast
  have "last (filter is_boardgame (pre @ PDict r # post)) = PDict r"
    using bg post(2) by simp
  with ranks_loop_Inr[OF st] bg have "fst st = Some (rank_value (PDict r))" by simp
  with p have "fst st = Some PNone" by (simp add: rank_value_def)
  with s show ?thesis by (simp add: bgg_rank_def)
qed

text \<open>The witness: a single rank named \<open>boardgame\<close> whose value is \<open>None\<close>.\<close>

theorem C2_null_rank_when_value_absent_or_mistyped_witness:
  "\<exists>s. BoardGameStats_init (PDict [(''ranks'', PList
       [PDict [(''id'', PInt 1), (''name'', PStr ''boardgame''), (''value'', PNone)]])]) = Inr s
     \<and> bgg_rank s = Inr PNone"
proof -
  let ?r = "[(''id'', PInt 1), (''name'', PStr ''boardgame''), (''value'', PNone)]"
  let ?d = "PDict [(''ranks'', PList [PDict ?r])]"
  have g: "get_ranks ?d = Inr ([] @ PDict ?r # [])"
    by (simp add: get_ranks_def py_get_default_def py_iter_def)
  have t: "Thing_init ?r = Inr \<lparr>thing_id = 1, thing_name = PStr ''boardgame'', thing_data = ?r\<rparr>"
    by (simp add: Thing_init_def dict_get_def)
  show ?thesis
    using C2_null_rank_when_value_absent_or_mistyped[OF g _ _ _ _ t]
    by simp
qed

section \<open>Videos\<close>

lemma map_of_dict_set: "map_of (dict_set d k v) k' = (if k' = k then Some v else map_of d k')"
  by (induction d) auto

lemma dict_set_idem: "dict_set (dict_set d k v) k v = dict_set d k v"
  by (induction d) auto

lemma strptime_datetime: "strptime s = Some dt \<Longrightarrow> \<exists>y m d h mi se. dt = PDateTime y m d h mi se"
  by (auto simp: strptime_def split: list.splits if_splits prod.splits)

lemma fix_post_date_fixed: "fix_post_date (fix_post_date v) = fix_post_date v"
proof (cases v)
  case (PStr s)
  then show ?thesis
    by (cases "strptime (take (length s - 6) s)")
       (auto simp: fix_post_date_def dest: strptime_datetime)
qed (simp_all add: fix_post_date_def)

lemma py_int_error: "py_int u = Inl e \<Longrightarrow> e = TypeError \<or> e = ValueError"
  by (cases u) (auto split: option.splits)

lemma Thing_init_ok:
  "map_of d ''id'' = Some i \<Longrightarrow> py_int i = Inr k \<Longrightarrow>
   Thing_init d = Inr \<lparr>thing_id = k, thing_name = dict_get d ''name'', thing_data = d\<rparr>"
  by (simp add: Thing_init_def)

lemma BoardGameVideo_init_ok:
  assumes "map_of data ''uploader_id'' = Some u" "py_int u = Inr n"
    and "map_of data ''id'' = Some i" "py_int i = Inr k"
  shows "\<exists>v. BoardGameVideo_init data = Inr v \<and> uploader_id v = PInt n \<and>
             post_date v = (case map_of data ''post_date'' of None \<Rightarrow> PNone | Some date \<Rightarrow> fix_post_date date)"
  using assms
  by (cases "map_of data ''post_date''")
     (simp_all add: BoardGameVideo_init_def py_getitem_def map_of_dict_set Thing_init_ok
        uploader_id_def post_date_def dict_get_def)

text \<open>
  Claim C7: for a string-valued \<open>post_date\<close> the last six characters are dropped and
  the rest is parsed with the pattern \<open>%Y-%m-%dT%H:%M:%S\<close>, so that
  \<open>2021-05-01T10:00:00-07:00\<close> gives 2021-05-01 10:00:00. The parse raises nothing:
  constructing from the string is constructing from the mapping in which \<open>post_date\<close>
  already holds the parsed timestamp, or null when the text does not parse; and when
  the identifier and the uploader's identifier are valid, the construction succeeds with
  that value as \<open>post_date\<close>.
\<close>

theorem C7_post_date:
  assumes pd: "map_of data ''post_date'' = Some (PStr s)"
  shows "fix_post_date (PStr ''2021-05-01T10:00:00-07:00'') = PDateTime 2021 5 1 10 0 0
       \<and> BoardGameVideo_init data =
           BoardGameVideo_init (dict_set data ''post_date''
             (case strptime (take (length s - 6) s) of None \<Rightarrow> PNone | Some dt \<Rightarrow> dt))
       \<and> (\<forall>u n i k. map_of data ''uploader_id'' = Some u \<and> py_int u = Inr n \<and>
                    map_of data ''id'' = Some i \<and> py_int i = Inr k \<longrightarrow>
            (\<exists>v. BoardGameVideo_init data = Inr v \<and>
                 post_date v = (case strptime (take (length s - 6) s) of None \<Rightarrow> PNone | Some dt \<Rightarrow> dt)))"
proof (intro conjI allI impI)
  have "strptime (take (length ''2021-05-01T10:00:00-07:00'' - 6) ''2021-05-01T10:00:00-07:00'')
        = Some (PDateTime 2021 5 1 10 0 0)"
    by code_simp
  then show "fix_post_date (PStr ''2021-05-01T10:00:00-07:00'') = PDateTime 2021 5 1 10 0 0"
    by (simp add: fix_post_date_def)
next
  let ?r = "case strptime (take (length s - 6) s) of None \<Rightarrow> PNone | Some dt \<Rightarrow> dt"
  have r: "fix_post_date (PStr s) = ?r" by (simp add: fix_post_date_def)
  have "fix_post_date ?r = ?r" using fix_post_date_fixed[of "PStr s"] by (simp only: r)
  then show "BoardGameVideo_init data = BoardGameVideo_init (dict_set data ''post_date'' ?r)"
    using pd by (simp add: BoardGameVideo_init_def map_of_dict_set dict_set_idem r)
next
  fix u n i k
  assume "map_of data ''uploader_id'' = Some u \<and> py_int u = Inr n \<and>
          map_of data ''id'' = Some i \<and> py_int i = Inr k"
  then show "\<exists>v. BoardGameVideo_init data = Inr v \<and>
      post_date v = (case strptime (take (length s - 6) s) of None \<Rightarrow> PNone | Some dt \<Rightarrow> dt)"
    using BoardGameVideo_init_ok[of data u n i k] pd by (auto simp: fix_post_date_def)
qed

text \<open>The witness: the timestamp of the claim, and a malformed text that resolves to null.\<close>

theorem C7_post_date_witness:
  "(\<exists>v. BoardGameVideo_init [(''id'', PInt 9), (''uploader_id'', PStr ''42''),
                             (''post_date'', PStr ''2021-05-01T10:00:00-07:00'')] = Inr v
        \<and> post_date v = PDateTime 2021 5 1 10 0 0)
   \<and> (\<exists>v. BoardGameVideo_init [(''id'', PInt 9), (''uploader_id'', PStr ''42''),
                             (''post_date'', PStr ''yesterday'')] = Inr v
        \<and> post_date v = PNone)"
proof -
  let ?d1 = "[(''id'', PInt 9), (''uploader_id'', PStr ''42''), (''post_date'', PStr ''2021-05-01T10:00:00-07:00'')]"
  let ?d2 = "[(''id'', PInt 9), (''uploader_id'', PStr ''42''), (''post_date'', PStr ''yesterday'')]"
  have i42: "int_of_string ''42'' = Some 42" by code_simp
  have s1: "strptime (take (length ''2021-05-01T10:00:00-07:00'' - 6) ''2021-05-01T10:00:00-07:00'')
        = Some (PDateTime 2021 5 1 10 0 0)" by code_simp
  have s2: "strptime (take (length ''yesterday'' - 6) ''yesterday'') = None" by code_simp
  have h1: "map_of ?d1 ''uploader_id'' = Some (PStr ''42'') \<and> py_int (PStr ''42'') = Inr 42 \<and>
            map_of ?d1 ''id'' = Some (PInt 9) \<and> py_int (PInt 9) = Inr 9"
    by (simp add: i42)
  have h2: "map_of ?d2 ''uploader_id'' = Some (PStr ''42'') \<and> py_int (PStr ''42'') = Inr 42 \<and>
            map_of ?d2 ''id'' = Some (PInt 9) \<and> py_int (PInt 9) = Inr 9"
    by (simp add: i42)
  have p1: "map_of ?d1 ''post_date'' = Some (PStr ''2021-05-01T10:00:00-07:00'')" by simp
  have p2: "map_of ?d2 ''post_date'' = Some (PStr ''yesterday'')" by simp
  from C7_post_date[OF p1, THEN conjunct2, THEN conjunct2, rule_format, OF h1]
  have a: "\<exists>v. BoardGameVideo_init ?d1 = Inr v \<and> post_date v = PDateTime 2021 5 1 10 0 0"
    by (simp only: s1 option.case)
  from C7_post_date[OF p2, THEN conjunct2, THEN conjunct2, rule_format, OF h2]
  have b: "\<exists>v. BoardGameVideo_init ?d2 = Inr v \<and> post_date v = PNone"
    by (simp only: s2 option.case)
  from a b show ?thesis by (rule conjI)
qed

text \<open>
  Claim C9, as stated, fails: without \<open>uploader_id\<close> the constructor raises
  \<open>KeyError\<close>, and the value \<open>"abc"\<close> makes \<open>int\<close> raise \<open>ValueError\<close>; neither is
  the library's validation error.
\<close>

theorem C9_counterexample:
  "BoardGameVideo_init [(''id'', PInt 1), (''name'', PStr ''how to play'')] = Inl KeyError
   \<and> BoardGameVideo_init [(''id'', PInt 1), (''name'', PStr ''how to play''), (''uploader_id'', PStr ''abc'')]
       = Inl ValueError"
proof -
  have "int_of_string ''abc'' = None" by code_simp
  then show ?thesis by (simp add: BoardGameVideo_init_def py_getitem_def)
qed

text \<open>
  Claim C9, amended: a missing \<open>uploader_id\<close> makes the constructor raise \<open>KeyError\<close>,
  which the video loop of the game's constructor turns into the validation error
  \<open>invalid video data\<close>; a value that \<open>int\<close> refuses makes the constructor raise the
  exception of \<open>int\<close> itself, which is not the validation error; a value that can be
  converted is exposed as an integer (the video's own identifier being valid).
\<close>

theorem C9_uploader_id:
  "(map_of data ''uploader_id'' = None \<longrightarrow>
      BoardGameVideo_init data = Inl KeyError \<and>
      (\<forall>i k out seen. map_of data ''id'' = Some i \<and> hash_key i = Inr k \<and> k \<notin> seen \<longrightarrow>
         except_KeyError ''invalid video data'' (unique_step BoardGameVideo_init (out, seen) (PDict data))
           = Inl (BGGError ''invalid video data'')))
   \<and> (\<forall>u e. map_of data ''uploader_id'' = Some u \<and> py_int u = Inl e \<longrightarrow>
         BoardGameVideo_init data = Inl e \<and> (\<forall>msg. e \<noteq> BGGError msg))
   \<and> (\<forall>u n i k. map_of data ''uploader_id'' = Some u \<and> py_int u = Inr n \<and>
                map_of data ''id'' = Some i \<and> py_int i = Inr k \<longrightarrow>
         (\<exists>v. BoardGameVideo_init data = Inr v \<and> uploader_id v = PInt n))"
proof (intro conjI allI impI)
  assume n: "map_of data ''uploader_id'' = None"
  show k: "BoardGameVideo_init data = Inl KeyError"
    using n by (cases "map_of data ''post_date''")
      (simp_all add: BoardGameVideo_init_def py_getitem_def map_of_dict_set)
  fix i k out seen
  assume "map_of data ''id'' = Some i \<and> hash_key i = Inr k \<and> k \<notin> seen"
  then show "except_KeyError ''invalid video data'' (unique_step BoardGameVideo_init (out, seen) (PDict data))
           = Inl (BGGError ''invalid video data'')"
    using k by (simp add: unique_step_def elem_id_def py_getitem_def except_KeyError_def)
next
  fix u e
  assume a: "map_of data ''uploader_id'' = Some u \<and> py_int u = Inl e"
  then show "BoardGameVideo_init data = Inl e"
    by (cases "map_of data ''post_date''")
      (simp_all add: BoardGameVideo_init_def py_getitem_def map_of_dict_set)
  fix msg
  from a have "py_int u = Inl e" ..
  then have "e = TypeError \<or> e = ValueError" by (rule py_int_error)
  then show "e \<noteq> BGGError msg" by auto
next
  fix u n i k
  assume "map_of data ''uploader_id'' = Some u \<and> py_int u = Inr n \<and>
          map_of data ''id'' = Some i \<and> py_int i = Inr k"
  then show "\<exists>v. BoardGameVideo_init data = Inr v \<and> uploader_id v = PInt n"
    using BoardGameVideo_init_ok[of data u n i k] by auto
qed

text \<open>The witness: a video without uploader, one with a null uploader, one whose
  uploader starts with a character that \<open>int\<close> does not strip, and one with the
  uploader \<open>" 42"\<close>.\<close>

theorem C9_uploader_id_witness:
  "BoardGameVideo_init [(''id'', PInt 1)] = Inl KeyError
   \<and> BoardGameVideo_init [(''id'', PInt 1), (''uploader_id'', PNone)] = Inl TypeError
   \<and> BoardGameVideo_init [(''id'', PInt 1), (''uploader_id'', PStr [CHR 0x1C, CHR ''1'', CHR ''2''])]
       = Inl ValueError
   \<and> (\<exists>v. BoardGameVideo_init [(''id'', PInt 1), (''uploader_id'', PStr '' 42'')] = Inr v
          \<and> uploader_id v = PInt 42)"
proof -
  let ?d2 = "[(''id'', PInt 1), (''uploader_id'', PNone)]"
  let ?d3 = "[(''id'', PInt 1), (''uploader_id'', PStr '' 42'')]"
  let ?d4 = "[(''id'', PInt 1), (''uploader_id'', PStr [CHR 0x1C, CHR ''1'', CHR ''2''])]"
  have i42: "int_of_string '' 42'' = Some 42" by code_simp
  have ifs: "int_of_string [CHR 0x1C, CHR ''1'', CHR ''2''] = None" by code_simp
  have h1: "map_of [(''id'', PInt 1)] ''uploader_id'' = None" by simp
  have h2: "map_of ?d2 ''uploader_id'' = Some PNone \<and> py_int PNone = Inl TypeError" by simp
  have h3: "map_of ?d3 ''uploader_id'' = Some (PStr '' 42'') \<and> py_int (PStr '' 42'') = Inr 42 \<and>
            map_of ?d3 ''id'' = Some (PInt 1) \<and> py_int (PInt 1) = Inr 1"
    by (simp add: i42)
  have h4: "map_of ?d4 ''uploader_id'' = Some (PStr [CHR 0x1C, CHR ''1'', CHR ''2'']) \<and>
            py_int (PStr [CHR 0x1C, CHR ''1'', CHR ''2'']) = Inl ValueError"
    by (simp add: ifs)
  note a = C9_uploader_id[of "[(''id'', PInt 1)]", THEN conjunct1, rule_format, OF h1, THEN conjunct1]
  note b = C9_uploader_id[of ?d2, THEN conjunct2, THEN conjunct1, rule_format, OF h2, THEN conjunct1]
  note c = C9_uploader_id[of ?d3, THEN conjunct2, THEN conjunct2, rule_format, OF h3]
  note d = C9_uploader_id[of ?d4, THEN conjunct2, THEN conjunct1, rule_format, OF h4, THEN conjunct1]
  from a b d c show ?thesis by (intro conjI)
qed

section \<open>Games\<close>

subsection \<open>The loops that keep identifiers unique\<close>

lemma except_KeyError_Inr_iff: "except_KeyError msg r = Inr y \<longleftrightarrow> r = Inr y"
  by (cases r) (simp_all add: except_KeyError_def)

lemma elem_id_dict: "elem_id x = Inr k \<Longrightarrow> \<exists>d. x = PDict d"
  by (cases x) (simp_all add: elem_id_def py_getitem_def)

lemma unique_step_Inr:
  assumes "unique_step ctor (out, seen) x = Inr st'"
  shows "\<exists>k. elem_id x = Inr k \<and>
           (if k \<in> seen then st' = (out, seen)
            else (\<exists>t. construct ctor x = Inr t \<and> st' = (out @ [t], insert k seen)))"
proof -
  from assms obtain k where k: "elem_id x = Inr k"
    by (auto simp: unique_step_def bind_exn_Inr_iff)
  then obtain d where d: "x = PDict d" using elem_id_dict by blast
  show ?thesis
    using assms k d
    by (auto simp: unique_step_def construct_def py_items_def bind_exn_Inr_iff split: if_splits)
qed

lemma first_by_id_filter_seen:
  assumes "elem_id x = Inr k"
  shows "filter (\<lambda>y. elem_id y \<noteq> elem_id x) (filter (\<lambda>y. elem_id y \<notin> Inr ` seen) xs)
       = filter (\<lambda>y. elem_id y \<notin> Inr ` insert k seen) xs"
  using assms by (auto simp: filter_filter intro!: filter_cong)

lemma unique_loop_Inr:
  "unique_loop msg ctor (out, seen) xs = Inr (out', seen') \<Longrightarrow>
     map Inr out' = map Inr out @ map (construct ctor) (first_by_id (filter (\<lambda>y. elem_id y \<notin> Inr ` seen) xs))"
proof (induction xs arbitrary: out seen)
  case Nil
  then show ?case by simp
next
  case (Cons x xs)
  from Cons.prems obtain st1 where
    s1: "unique_step ctor (out, seen) x = Inr st1" and s2: "unique_loop msg ctor st1 xs = Inr (out', seen')"
    by (auto simp: bind_exn_Inr_iff except_KeyError_Inr_iff)
  from unique_step_Inr[OF s1] obtain k where k: "elem_id x = Inr k"
    and c: "if k \<in> seen then st1 = (out, seen)
            else (\<exists>t. construct ctor x = Inr t \<and> st1 = (out @ [t], insert k seen))"
    by blast
  show ?case
  proof (cases "k \<in> seen")
    case True
    with c s2 have "unique_loop msg ctor (out, seen) xs = Inr (out', seen')" by simp
    from Cons.IH[OF this] True k show ?thesis by simp
  next
    case False
    with c obtain t where t: "construct ctor x = Inr t" and st1: "st1 = (out @ [t], insert k seen)"
      by auto
    from s2 st1 have "unique_loop msg ctor (out @ [t], insert k seen) xs = Inr (out', seen')" by simp
    from Cons.IH[OF this]
    have "map Inr out' = map Inr (out @ [t]) @
            map (construct ctor) (first_by_id (filter (\<lambda>y. elem_id y \<notin> Inr ` insert k seen) xs))" .
    then have IH': "map Inr out' = map Inr out @ Inr t #
            map (construct ctor) (first_by_id (filter (\<lambda>y. elem_id y \<notin> Inr ` insert k seen) xs))"
      by simp
    have "elem_id x \<notin> Inr ` seen" using False k by auto
    then have "filter (\<lambda>y. elem_id y \<notin> Inr ` seen) (x # xs) = x # filter (\<lambda>y. elem_id y \<notin> Inr ` seen) xs"
      by simp
    then have "first_by_id (filter (\<lambda>y. elem_id y \<notin> Inr ` seen) (x # xs))
         = x # first_by_id (filter (\<lambda>y. elem_id y \<notin> Inr ` insert k seen) xs)"
      by (simp only: first_by_id.simps first_by_id_filter_seen[OF k])
    then show ?thesis
      using IH' t by (simp only: list.map)
  qed
qed

lemma unique_loop_Inr_empty:
  "unique_loop msg ctor ([], {}) xs = Inr st \<Longrightarrow> map Inr (fst st) = map (construct ctor) (first_by_id xs)"
  using unique_loop_Inr[of msg ctor "[]" "{}" xs "fst st" "snd st"] by simp

lemma unique_loop_append:
  "unique_loop msg ctor st (xs @ ys) = bind_exn (unique_loop msg ctor st xs) (\<lambda>st'. unique_loop msg ctor st' ys)"
proof (induction xs arbitrary: st)
  case Nil
  then show ?case by simp
next
  case (Cons x xs)
  then show ?case
    by (cases "except_KeyError msg (unique_step ctor st x)") simp_all
qed

lemma unique_loop_missing_id:
  assumes "map_of e ''id'' = None" and "unique_loop msg ctor ([], {}) pre = Inr st"
  shows "unique_loop msg ctor ([], {}) (pre @ PDict e # post) = Inl (BGGError msg)"
proof -
  have "unique_step ctor st (PDict e) = Inl KeyError"
    using assms(1) by (simp add: unique_step_def elem_id_def py_getitem_def)
  then show ?thesis
    using assms(2) by (simp add: unique_loop_append except_KeyError_def)
qed

text \<open>The spec's deduplication keeps elements of the input, one for every identifier
  that occurs, and no identifier twice.\<close>

lemma first_by_id_subset: "set (first_by_id xs) \<subseteq> set xs"
proof (induction xs rule: first_by_id.induct)
  case 1
  then show ?case by simp
next
  case (2 x xs)
  then show ?case by auto
qed

lemma first_by_id_keys: "elem_id ` set (first_by_id xs) = elem_id ` set xs"
proof (induction xs rule: first_by_id.induct)
  case 1
  then show ?case by simp
next
  case (2 x xs)
  then show ?case by auto
qed

lemma first_by_id_distinct: "distinct (map elem_id (first_by_id xs))"
proof (induction xs rule: first_by_id.induct)
  case 1
  then show ?case by simp
next
  case (2 x xs)
  have "elem_id x \<notin> elem_id ` set (filter (\<lambda>y. elem_id y \<noteq> elem_id x) xs)" by auto
  with 2 show ?case by (simp add: first_by_id_keys)
qed

subsection \<open>The constructors\<close>

lemma BoardGame_init_Inr:
  assumes "BoardGame_init fu fn data = Inr g"
  shows "\<exists>es xs vs ws st1 st2 st3 st4.
      get_list data ''expansions'' = Inr es \<and> unique_loop ''invalid expansion data'' Thing_init ([], {}) es = Inr st1 \<and>
      get_list data ''expands'' = Inr xs \<and> unique_loop ''invalid expanded game data'' Thing_init ([], {}) xs = Inr st2 \<and>
      get_list data ''videos'' = Inr vs \<and> unique_loop ''invalid video data'' BoardGameVideo_init ([], {}) vs = Inr st3 \<and>
      get_list data ''versions'' = Inr ws \<and> unique_loop ''invalid version data'' (BoardGameVersion_init fu) ([], {}) ws = Inr st4 \<and>
      expansions g = fst st1 \<and> expands g = fst st2 \<and> videos g = fst st3 \<and> versions g = fst st4"
  using assms
  by (auto simp: BoardGame_init_def BoardGame_attrs_def BaseGame_init_def bind_exn_Inr_iff
      expansions_def expands_def videos_def versions_def base_game.defs board_game.defs)

text \<open>
  Claim C4: in a constructed game each of the lists of expansions, expanded games,
  videos and versions consists of the constructed first occurrences: the constructor
  mapped over the input list from which every later element with an already seen \<open>id\<close>
  has been dropped, in input order.
\<close>

theorem C4_first_occurrence_kept:
  assumes "BoardGame_init fu fn data = Inr g"
    and "get_list data ''expansions'' = Inr es" and "get_list data ''expands'' = Inr xs"
    and "get_list data ''videos'' = Inr vs" and "get_list data ''versions'' = Inr ws"
  shows "map Inr (expansions g) = map (construct Thing_init) (first_by_id es) \<and>
         map Inr (expands g) = map (construct Thing_init) (first_by_id xs) \<and>
         map Inr (videos g) = map (construct BoardGameVideo_init) (first_by_id vs) \<and>
         map Inr (versions g) = map (construct (BoardGameVersion_init fu)) (first_by_id ws)"
proof -
  from BoardGame_init_Inr[OF assms(1)] assms(2-5) obtain st1 st2 st3 st4 where
    u: "unique_loop ''invalid expansion data'' Thing_init ([], {}) es = Inr st1"
       "unique_loop ''invalid expanded game data'' Thing_init ([], {}) xs = Inr st2"
       "unique_loop ''invalid video data'' BoardGameVideo_init ([], {}) vs = Inr st3"
       "unique_loop ''invalid version data'' (BoardGameVersion_init fu) ([], {}) ws = Inr st4"
    and g: "expansions g = fst st1" "expands g = fst st2" "videos g = fst st3" "versions g = fst st4"
    by auto
  from u g show ?thesis
    by (simp add: unique_loop_Inr_empty)
qed

text \<open>An error of one of the three loops is the error of the construction.\<close>

lemma BoardGame_attrs_expansions_error:
  "get_list data ''expansions'' = Inr es \<Longrightarrow>
   unique_loop ''invalid expansion data'' Thing_init ([], {}) es = Inl e \<Longrightarrow>
   BoardGame_init fu fn data = Inl e"
  by (simp add: BoardGame_init_def BoardGame_attrs_def)

lemma BoardGame_attrs_expands_error:
  "get_list data ''expansions'' = Inr es \<Longrightarrow>
   unique_loop ''invalid expansion data'' Thing_init ([], {}) es = Inr st1 \<Longrightarrow>
   get_list data ''expands'' = Inr xs \<Longrightarrow>
   unique_loop ''invalid expanded game data'' Thing_init ([], {}) xs = Inl e \<Longrightarrow>
   BoardGame_init fu fn data = Inl e"
  by (simp add: BoardGame_init_def BoardGame_attrs_def)

lemma BoardGame_attrs_videos_error:
  "get_list data ''expansions'' = Inr es \<Longrightarrow>
   unique_loop ''invalid expansion data'' Thing_init ([], {}) es = Inr st1 \<Longrightarrow>
   get_list data ''expands'' = Inr xs \<Longrightarrow>
   unique_loop ''invalid expanded game data'' Thing_init ([], {}) xs = Inr st2 \<Longrightarrow>
   get_list data ''videos'' = Inr vs \<Longrightarrow>
   unique_loop ''invalid video data'' BoardGameVideo_init ([], {}) vs = Inl e \<Longrightarrow>
   BoardGame_init fu fn data = Inl e"
  by (simp add: BoardGame_init_def BoardGame_attrs_def)

text \<open>
  Claim C8: when the loop over the expansions, over the expanded games or over the
  videos reaches an element without \<open>id\<close> (the elements before it, and the lists
  processed before, having been processed without error), construction stops with the
  validation error \<open>invalid expansion data\<close>, \<open>invalid expanded game data\<close> or
  \<open>invalid video data\<close>.
\<close>

theorem C8_missing_id_aborts:
  assumes "map_of e ''id'' = None"
  shows "(\<forall>pre post st.
            get_list data ''expansions'' = Inr (pre @ PDict e # post) \<and>
            unique_loop ''invalid expansion data'' Thing_init ([], {}) pre = Inr st \<longrightarrow>
            BoardGame_init fu fn data = Inl (BGGError ''invalid expansion data''))
       \<and> (\<forall>es st1 pre post st.
            get_list data ''expansions'' = Inr es \<and>
            unique_loop ''invalid expansion data'' Thing_init ([], {}) es = Inr st1 \<and>
            get_list data ''expands'' = Inr (pre @ PDict e # post) \<and>
            unique_loop ''invalid expanded game data'' Thing_init ([], {}) pre = Inr st \<longrightarrow>
            BoardGame_init fu fn data = Inl (BGGError ''invalid expanded game data''))
       \<and> (\<forall>es st1 xs st2 pre post st.
            get_list data ''expansions'' = Inr es \<and>
            unique_loop ''invalid expansion data'' Thing_init ([], {}) es = Inr st1 \<and>
            get_list data ''expands'' = Inr xs \<and>
            unique_loop ''invalid expanded game data'' Thing_init ([], {}) xs = Inr st2 \<and>
            get_list data ''videos'' = Inr (pre @ PDict e # post) \<and>
            unique_loop ''invalid video data'' BoardGameVideo_init ([], {}) pre = Inr st \<longrightarrow>
            BoardGame_init fu fn data = Inl (BGGError ''invalid video data''))"
proof (intro conjI allI impI)
  fix pre post and st :: "thing list \<times> pyval set"
  assume a: "get_list data ''expansions'' = Inr (pre @ PDict e # post) \<and>
            unique_loop ''invalid expansion data'' Thing_init ([], {}) pre = Inr st"
  from a have "unique_loop ''invalid expansion data'' Thing_init ([], {}) (pre @ PDict e # post)
        = Inl (BGGError ''invalid expansion data'')"
    using unique_loop_missing_id[OF assms] by blast
  with a show "BoardGame_init fu fn data = Inl (BGGError ''invalid expansion data'')"
    using BoardGame_attrs_expansions_error by blast
next
  fix es pre post and st1 st :: "thing list \<times> pyval set"
  assume a: "get_list data ''expansions'' = Inr es \<and>
            unique_loop ''invalid expansion data'' Thing_init ([], {}) es = Inr st1 \<and>
            get_list data ''expands'' = Inr (pre @ PDict e # post) \<and>
            unique_loop ''invalid expanded game data'' Thing_init ([], {}) pre = Inr st"
  from a have "unique_loop ''invalid expanded game data'' Thing_init ([], {}) (pre @ PDict e # post)
        = Inl (BGGError ''invalid expanded game data'')"
    using unique_loop_missing_id[OF assms] by blast
  with a show "BoardGame_init fu fn data = Inl (BGGError ''invalid expanded game data'')"
    using BoardGame_attrs_expands_error by blast
next
  fix es xs pre post and st1 st2 st :: "thing list \<times> pyval set"
  assume a: "get_list data ''expansions'' = Inr es \<and>
            unique_loop ''invalid expansion data'' Thing_init ([], {}) es = Inr st1 \<and>
            get_list data ''expands'' = Inr xs \<and>
            unique_loop ''invalid expanded game data'' Thing_init ([], {}) xs = Inr st2 \<and>
            get_list data ''videos'' = Inr (pre @ PDict e # post) \<and>
            unique_loop ''invalid video data'' BoardGameVideo_init ([], {}) pre = Inr st"
  from a have "unique_loop ''invalid video data'' BoardGameVideo_init ([], {}) (pre @ PDict e # post)
        = Inl (BGGError ''invalid video data'')"
    using unique_loop_missing_id[OF assms] by blast
  with a show "BoardGame_init fu fn data = Inl (BGGError ''invalid video data'')"
    using BoardGame_attrs_videos_error by blast
qed


text \<open>The definitions unfolded to run a constructor on concrete data.\<close>

lemmas game_eval = BoardGame_init_def BoardGame_attrs_def BaseGame_init_def get_list_def
  poll_results_def fix_optional_url_def get_year_published_def BoardGameStats_init_def
  get_ranks_def py_get_default_def py_iter_def Thing_init_def dict_get_def unique_step_def
  elem_id_def py_getitem_def hash_key_def except_KeyError_def py_items_def

text \<open>The witness: expansions with the identifiers 1, 2, 1 give two entries, 1 and 2,
  the first of which is the first element of the input.\<close>

theorem C4_first_occurrence_kept_witness:
  "\<exists>g. BoardGame_init Inr Inr
          [(''id'', PInt 7), (''name'', PStr ''game''), (''stats'', PDict []),
           (''expansions'', PList [PDict [(''id'', PInt 1), (''name'', PStr ''a'')],
                                   PDict [(''id'', PInt 2), (''name'', PStr ''b'')],
                                   PDict [(''id'', PInt 1), (''name'', PStr ''c'')]])] = Inr g
       \<and> map thing_id (expansions g) = [1, 2]
       \<and> map thing_name (expansions g) = [PStr ''a'', PStr ''b'']"
proof -
  let ?e1 = "PDict [(''id'', PInt 1), (''name'', PStr ''a'')]"
  let ?e2 = "PDict [(''id'', PInt 2), (''name'', PStr ''b'')]"
  let ?e3 = "PDict [(''id'', PInt 1), (''name'', PStr ''c'')]"
  let ?d = "[(''id'', PInt 7), (''name'', PStr ''game''), (''stats'', PDict []),
             (''expansions'', PList [?e1, ?e2, ?e3])]"
  let ?t1 = "\<lparr>thing_id = 1, thing_name = PStr ''a'', thing_data = [(''id'', PInt 1), (''name'', PStr ''a'')]\<rparr>"
  let ?t2 = "\<lparr>thing_id = 2, thing_name = PStr ''b'', thing_data = [(''id'', PInt 2), (''name'', PStr ''b'')]\<rparr>"
  have "\<exists>g. BoardGame_init Inr Inr ?d = Inr g"
    by (simp add: game_eval)
  then obtain g where g: "BoardGame_init Inr Inr ?d = Inr g" ..
  have l1: "get_list ?d ''expansions'' = Inr [?e1, ?e2, ?e3]"
    and l2: "get_list ?d ''expands'' = Inr []"
    and l3: "get_list ?d ''videos'' = Inr []"
    and l4: "get_list ?d ''versions'' = Inr []"
    by (simp_all add: get_list_def py_iter_def)
  have fb: "first_by_id [?e1, ?e2, ?e3] = [?e1, ?e2]"
    by (simp add: elem_id_def py_getitem_def hash_key_def)
  have c: "map (construct Thing_init) [?e1, ?e2] = map Inr [?t1, ?t2]"
    by (simp add: construct_def py_items_def Thing_init_def dict_get_def)
  have "map (Inr :: thing \<Rightarrow> exn + thing) (expansions g) = map Inr [?t1, ?t2]"
    using C4_first_occurrence_kept[OF g l1 l2 l3 l4, THEN conjunct1] unfolding fb c .
  then have e: "expansions g = [?t1, ?t2]"
    by (simp only: inj_map_eq_map[OF inj_Inr])
  show ?thesis
  proof (intro exI conjI)
    show "BoardGame_init Inr Inr ?d = Inr g" by (rule g)
    show "map thing_id (expansions g) = [1, 2]" by (simp add: e)
    show "map thing_name (expansions g) = [PStr ''a'', PStr ''b'']" by (simp add: e)
  qed
qed

text \<open>The witness: one element without \<open>id\<close> in each of the three lists.\<close>

theorem C8_missing_id_aborts_witness:
  "BoardGame_init Inr Inr [(''id'', PInt 7), (''stats'', PDict []),
      (''expansions'', PList [PDict [(''id'', PInt 1)], PDict [(''name'', PStr ''no id'')]])]
     = Inl (BGGError ''invalid expansion data'')
   \<and> BoardGame_init Inr Inr [(''id'', PInt 7), (''stats'', PDict []),
      (''expands'', PList [PDict [(''name'', PStr ''no id'')]])]
     = Inl (BGGError ''invalid expanded game data'')
   \<and> BoardGame_init Inr Inr [(''id'', PInt 7), (''stats'', PDict []),
      (''videos'', PList [PDict [(''name'', PStr ''no id'')]])]
     = Inl (BGGError ''invalid video data'')"
proof -
  let ?e = "[(''name'', PStr ''no id'')]"
  let ?d1 = "[(''id'', PInt 7), (''stats'', PDict []),
      (''expansions'', PList [PDict [(''id'', PInt 1)], PDict ?e])]"
  let ?d2 = "[(''id'', PInt 7), (''stats'', PDict []), (''expands'', PList [PDict ?e])]"
  let ?d3 = "[(''id'', PInt 7), (''stats'', PDict []), (''videos'', PList [PDict ?e])]"
  have e: "map_of ?e ''id'' = None" by simp
  have h1: "get_list ?d1 ''expansions'' = Inr ([PDict [(''id'', PInt 1)]] @ PDict ?e # []) \<and>
        unique_loop ''invalid expansion data'' Thing_init ([], {}) [PDict [(''id'', PInt 1)]]
          = Inr ([\<lparr>thing_id = 1, thing_name = PNone, thing_data = [(''id'', PInt 1)]\<rparr>], {PInt 1})"
    by (simp add: game_eval)
  have h2: "get_list ?d2 ''expansions'' = Inr [] \<and>
        unique_loop ''invalid expansion data'' Thing_init ([], {}) [] = Inr ([], {}) \<and>
        get_list ?d2 ''expands'' = Inr ([] @ PDict ?e # []) \<and>
        unique_loop ''invalid expanded game data'' Thing_init ([], {}) [] = Inr ([], {})"
    by (simp add: game_eval)
  have h3: "get_list ?d3 ''expansions'' = Inr [] \<and>
        unique_loop ''invalid expansion data'' Thing_init ([], {}) [] = Inr ([], {}) \<and>
        get_list ?d3 ''expands'' = Inr [] \<and>
        unique_loop ''invalid expanded game data'' Thing_init ([], {}) [] = Inr ([], {}) \<and>
        get_list ?d3 ''videos'' = Inr ([] @ PDict ?e # []) \<and>
        unique_loop ''invalid video data'' BoardGameVideo_init ([], {}) [] = Inr ([], {})"
    by (simp add: game_eval)
  note T = C8_missing_id_aborts[OF e]
  note a = T[of ?d1, THEN conjunct1, rule_format, OF h1]
  note b = T[of ?d2, THEN conjunct2, THEN conjunct1, rule_format, OF h2]
  note c = T[of ?d3, THEN conjunct2, THEN conjunct2, rule_format, OF h3]
  from a b c show ?thesis by (intro conjI)
qed

text \<open>
  Claim C3, as stated, fails for \<open>BoardGame\<close>: its constructor checks \<open>stats\<close> last, in
  \<open>BaseGame.__init__\<close>, so an earlier step that fails raises its own error first. A
  mapping without \<open>stats\<close> whose player-age poll has no \<open>results\<close> raises \<open>KeyError\<close>.
\<close>

theorem C3_counterexample:
  "map_of [(''id'', PInt 7), (''name'', PStr ''game''), (''suggested_playerage'', PDict [])] ''stats'' = None
   \<and> BoardGame_init Inr Inr [(''id'', PInt 7), (''name'', PStr ''game''), (''suggested_playerage'', PDict [])]
       = Inl KeyError"
  by (simp add: game_eval)

text \<open>
  Claim C3, amended: a mapping without \<open>stats\<close> never yields an instance, neither of
  the base game nor of the game. The base game raises the validation error
  \<open>invalid data\<close> as soon as the normalisation of the thumbnail and image URLs has
  returned, and the game raises it whenever its own earlier steps have completed.
\<close>

theorem C3_missing_stats:
  assumes "map_of data ''stats'' = None"
  shows "(\<exists>e. BaseGame_init fu fn data = Inl e) \<and> (\<exists>e. BoardGame_init fu fn data = Inl e)
       \<and> (\<forall>t i. fix_optional_url fu data ''thumbnail'' = Inr t \<and>
                fix_optional_url fu data ''image'' = Inr i \<longrightarrow>
            BaseGame_init fu fn data = Inl (BGGError ''invalid data'') \<and>
            (\<forall>a. BoardGame_attrs data = Inr a \<longrightarrow>
               BoardGame_init fu fn data = Inl (BGGError ''invalid data'')))"
proof (intro conjI allI impI)
  show b: "\<exists>e. BaseGame_init fu fn data = Inl e"
    using assms
    by (cases "fix_optional_url fu data ''thumbnail''"; cases "fix_optional_url fu data ''image''")
       (simp_all add: BaseGame_init_def)
  then show "\<exists>e. BoardGame_init fu fn data = Inl e"
    by (cases "BoardGame_attrs data") (auto simp: BoardGame_init_def)
next
  fix t i
  assume u: "fix_optional_url fu data ''thumbnail'' = Inr t \<and> fix_optional_url fu data ''image'' = Inr i"
  with assms show b: "BaseGame_init fu fn data = Inl (BGGError ''invalid data'')"
    by (simp add: BaseGame_init_def)
  fix a
  assume "BoardGame_attrs data = Inr a"
  with b show "BoardGame_init fu fn data = Inl (BGGError ''invalid data'')"
    by (simp add: BoardGame_init_def)
qed

text \<open>The witness: a mapping with an identifier and a name only.\<close>

theorem C3_missing_stats_witness:
  "BaseGame_init Inr Inr [(''id'', PInt 7), (''name'', PStr ''game'')] = Inl (BGGError ''invalid data'')
   \<and> BoardGame_init Inr Inr [(''id'', PInt 7), (''name'', PStr ''game'')] = Inl (BGGError ''invalid data'')"
proof -
  let ?d = "[(''id'', PInt 7), (''name'', PStr ''game'')]"
  have s: "map_of ?d ''stats'' = None" by simp
  have u: "fix_optional_url Inr ?d ''thumbnail'' = Inr PNone \<and> fix_optional_url Inr ?d ''image'' = Inr PNone"
    by (simp add: fix_optional_url_def)
  have "\<exists>a. BoardGame_attrs ?d = Inr a"
    by (simp add: BoardGame_attrs_def get_list_def poll_results_def)
  then obtain a where a: "BoardGame_attrs ?d = Inr a" ..
  note T = C3_missing_stats[OF s, of Inr Inr, THEN conjunct2, THEN conjunct2, rule_format, OF u]
  from T[THEN conjunct1] T[THEN conjunct2, rule_format, OF a] show ?thesis by (rule conjI)
qed

subsection \<open>The mutators\<close>

text \<open>
  Where the game's mapping holds the list, the mutators do what their documentation
  says: data without \<open>id\<close> is refused with the tagged error and nothing changes, a
  known identifier changes nothing, and a new one is appended to the list in the
  mapping and, wrapped, to the list of things. Where the mapping has no such key, data
  with a new identifier is refused as invalid.
\<close>

lemma add_expansion_missing_id:
  "map_of d ''id'' = None \<Longrightarrow>
   add_expansion g (PDict d) = (Inl (BGGError ''invalid expansion data''), g)"
  by (simp add: add_expansion_def elem_id_def py_getitem_def except_KeyError_def)

lemma add_expansion_known_id:
  "map_of d ''id'' = Some i \<Longrightarrow> hash_key i = Inr k \<Longrightarrow> k \<in> expansions_set g \<Longrightarrow>
   add_expansion g (PDict d) = (Inr (), g)"
  by (simp add: add_expansion_def elem_id_def py_getitem_def)

lemma add_expansion_new_id:
  assumes "map_of d ''id'' = Some i" "hash_key i = Inr k" "k \<notin> expansions_set g"
    and "map_of (game_data g) ''expansions'' = Some (PList raw)" and "py_int i = Inr n"
  shows "fst (add_expansion g (PDict d)) = Inr () \<and>
         expansions (snd (add_expansion g (PDict d))) =
           expansions g @ [\<lparr>thing_id = n, thing_name = dict_get d ''name'', thing_data = d\<rparr>] \<and>
         map_of (game_data (snd (add_expansion g (PDict d)))) ''expansions'' = Some (PList (raw @ [PDict d])) \<and>
         expansions_set (snd (add_expansion g (PDict d))) = insert k (expansions_set g)"
  using assms
  by (simp add: add_expansion_def elem_id_def py_getitem_def py_items_def Thing_init_ok
      expansions_def map_of_dict_set Let_def)

lemma add_expansion_no_backing_list:
  "map_of d ''id'' = Some i \<Longrightarrow> hash_key i = Inr k \<Longrightarrow> k \<notin> expansions_set g \<Longrightarrow>
   map_of (game_data g) ''expansions'' = None \<Longrightarrow>
   add_expansion g (PDict d) = (Inl (BGGError ''invalid expansion data''), g)"
  by (simp add: add_expansion_def elem_id_def py_getitem_def)

lemma add_expanded_game_missing_id:
  "map_of d ''id'' = None \<Longrightarrow>
   add_expanded_game g (PDict d) = (Inl (BGGError ''invalid expanded game data''), g)"
  by (simp add: add_expanded_game_def elem_id_def py_getitem_def except_KeyError_def)

lemma add_expanded_game_known_id:
  "map_of d ''id'' = Some i \<Longrightarrow> hash_key i = Inr k \<Longrightarrow> k \<in> expands_set g \<Longrightarrow>
   add_expanded_game g (PDict d) = (Inr (), g)"
  by (simp add: add_expanded_game_def elem_id_def py_getitem_def)

lemma add_expanded_game_new_id:
  assumes "map_of d ''id'' = Some i" "hash_key i = Inr k" "k \<notin> expands_set g"
    and "map_of (game_data g) ''expands'' = Some (PList raw)" and "py_int i = Inr n"
  shows "fst (add_expanded_game g (PDict d)) = Inr () \<and>
         expands (snd (add_expanded_game g (PDict d))) =
           expands g @ [\<lparr>thing_id = n, thing_name = dict_get d ''name'', thing_data = d\<rparr>] \<and>
         map_of (game_data (snd (add_expanded_game g (PDict d)))) ''expands'' = Some (PList (raw @ [PDict d])) \<and>
         expands_set (snd (add_expanded_game g (PDict d))) = insert k (expands_set g)"
  using assms
  by (simp add: add_expanded_game_def elem_id_def py_getitem_def py_items_def Thing_init_ok
      expands_def map_of_dict_set Let_def)

lemma add_expanded_game_no_backing_list:
  "map_of d ''id'' = Some i \<Longrightarrow> hash_key i = Inr k \<Longrightarrow> k \<notin> expands_set g \<Longrightarrow>
   map_of (game_data g) ''expands'' = None \<Longrightarrow>
   add_expanded_game g (PDict d) = (Inl (BGGError ''invalid expanded game data''), g)"
  by (simp add: add_expanded_game_def elem_id_def py_getitem_def)

text \<open>
  Claim C5 at a failing input: the constructor accepts a mapping without the key
  \<open>expansions\<close> (it reads \<open>data.get("expansions", [])\<close>), but \<open>add_expansion\<close> reads
  \<open>self._data["expansions"]\<close> inside its \<open>try\<close>. On such a game, adding an expansion
  with the new identifier 3 raises \<open>invalid expansion data\<close> and the list of expansions
  stays empty.
\<close>

theorem C5_add_expansion_without_expansions_key:
  "map_sum id (\<lambda>g. (fst (add_expansion g (PDict [(''id'', PInt 3), (''name'', PStr ''expansion'')])),
                     map thing_id (expansions (snd (add_expansion g (PDict [(''id'', PInt 3), (''name'', PStr ''expansion'')]))))))
     (BoardGame_init Inr Inr [(''id'', PInt 7), (''name'', PStr ''game''), (''stats'', PDict [])])
   = Inr (Inl (BGGError ''invalid expansion data''), [])"
  by (simp add: game_eval add_expansion_def expansions_def base_game.defs board_game.defs)

text \<open>
  Claim C6 at a failing input: on a game built from a mapping without the keys
  \<open>expansions\<close> and \<open>expands\<close>, both mutators raise their tagged validation error
  for data that does contain an \<open>id\<close>.
\<close>

theorem C6_mutators_raise_although_id_present:
  "map_sum id (\<lambda>g. (fst (add_expansion g (PDict [(''id'', PInt 3), (''name'', PStr ''other'')])),
                     fst (add_expanded_game g (PDict [(''id'', PInt 3), (''name'', PStr ''other'')]))))
     (BoardGame_init Inr Inr [(''id'', PInt 7), (''name'', PStr ''game''), (''stats'', PDict [])])
   = Inr (Inl (BGGError ''invalid expansion data''), Inl (BGGError ''invalid expanded game data''))"
  by (simp add: game_eval add_expansion_def add_expanded_game_def base_game.defs board_game.defs)

end
